theory Spec2Isabelle
  imports Complex_Main "HOL-Library.Sublist"
begin

section \<open>Python values\<close>

text \<open>
  \<^verbatim>\<open>resume_parser.py\<close> works on what \<^verbatim>\<open>json.loads\<close> returns: dictionaries, lists,
  strings, numbers, booleans and \<^verbatim>\<open>None\<close>. A dictionary is an association list in
  insertion order; \<^verbatim>\<open>json.loads\<close> never yields a key twice. Strings are ASCII text:
  the character classes and case mappings below are Python's on code points 0 to 127,
  and a character above 127 is taken to have no case and to be no white space.
\<close>

datatype json =
    JNull
  | JBool bool
  | JInt int
  | JFloat real
  | JStr string
  | JArr "json list"
  | JObj "(string \<times> json) list"

datatype error = ValueError | KeyError | TypeError | AttributeError | IndexError | ImageError

definition bind :: "error + 'a \<Rightarrow> ('a \<Rightarrow> error + 'b) \<Rightarrow> error + 'b" where
  "bind m f = (case m of Inl e \<Rightarrow> Inl e | Inr x \<Rightarrow> f x)"

text \<open>Truth value of a Python object, as \<^verbatim>\<open>if x:\<close>, \<^verbatim>\<open>not x\<close> and \<^verbatim>\<open>filter(None, ...)\<close> test it.\<close>

fun truthy :: "json \<Rightarrow> bool" where
  "truthy JNull = False"
| "truthy (JBool b) = b"
| "truthy (JInt i) = (i \<noteq> 0)"
| "truthy (JFloat x) = (x \<noteq> 0)"
| "truthy (JStr s) = (s \<noteq> [])"
| "truthy (JArr xs) = (xs \<noteq> [])"
| "truthy (JObj kvs) = (kvs \<noteq> [])"

text \<open>\<^verbatim>\<open>d.get(k, default)\<close>: only a dictionary has the method.\<close>

definition dict_get :: "json \<Rightarrow> string \<Rightarrow> json \<Rightarrow> error + json" where
  "dict_get d k dflt =
     (case d of
        JObj kvs \<Rightarrow> Inr (case map_of kvs k of Some v \<Rightarrow> v | None \<Rightarrow> dflt)
      | _ \<Rightarrow> Inl AttributeError)"

text \<open>\<^verbatim>\<open>d[k]\<close> with a string key: \<^verbatim>\<open>KeyError\<close> on a dictionary without the key,
  \<^verbatim>\<open>TypeError\<close> on every other JSON value.\<close>

definition subscript :: "json \<Rightarrow> string \<Rightarrow> error + json" where
  "subscript d k =
     (case d of
        JObj kvs \<Rightarrow> (case map_of kvs k of Some v \<Rightarrow> Inr v | None \<Rightarrow> Inl KeyError)
      | _ \<Rightarrow> Inl TypeError)"

text \<open>\<^verbatim>\<open>x[:10]\<close>: lists and strings are sliced, every other JSON value raises (a
  \<^verbatim>\<open>TypeError\<close>; which exception it is plays no part below).\<close>

definition slice10 :: "json \<Rightarrow> error + json" where
  "slice10 x =
     (case x of
        JArr xs \<Rightarrow> Inr (JArr (take 10 xs))
      | JStr s \<Rightarrow> Inr (JStr (take 10 s))
      | _ \<Rightarrow> Inl TypeError)"

text \<open>\<^verbatim>\<open>for y in x\<close>: a list gives its elements, a string its characters, a dictionary
  its keys; the other JSON values are not iterable.\<close>

definition iterate :: "json \<Rightarrow> error + json list" where
  "iterate x =
     (case x of
        JArr xs \<Rightarrow> Inr xs
      | JStr s \<Rightarrow> Inr (map (\<lambda>c. JStr [c]) s)
      | JObj kvs \<Rightarrow> Inr (map (\<lambda>kv. JStr (fst kv)) kvs)
      | _ \<Rightarrow> Inl TypeError)"

section \<open>Python string methods\<close>

definition isspace :: "char \<Rightarrow> bool" where
  "isspace c = (let n = (of_char c :: nat) in (9 \<le> n \<and> n \<le> 13) \<or> (28 \<le> n \<and> n \<le> 32))"

definition isalnum :: "char \<Rightarrow> bool" where
  "isalnum c =
     (let n = (of_char c :: nat)
      in (48 \<le> n \<and> n \<le> 57) \<or> (65 \<le> n \<and> n \<le> 90) \<or> (97 \<le> n \<and> n \<le> 122))"

definition upper :: "char \<Rightarrow> char" where
  "upper c = (let n = (of_char c :: nat) in if 97 \<le> n \<and> n \<le> 122 then char_of (n - 32) else c)"

definition lower :: "char \<Rightarrow> char" where
  "lower c = (let n = (of_char c :: nat) in if 65 \<le> n \<and> n \<le> 90 then char_of (n + 32) else c)"

text \<open>\<^verbatim>\<open>s.strip()\<close>\<close>

definition strip :: "string \<Rightarrow> string" where
  "strip s = rev (dropWhile isspace (rev (dropWhile isspace s)))"

text \<open>\<^verbatim>\<open>s.replace(old, new)\<close>: the occurrences of \<^verbatim>\<open>old\<close> are found from the left and do
  not overlap.\<close>

function replace :: "string \<Rightarrow> string \<Rightarrow> string \<Rightarrow> string" where
  "replace old new [] = (if old = [] then new else [])"
| "replace old new (c # cs) =
     (if old = [] then new @ c # replace old new cs
      else if prefix old (c # cs) then new @ replace old new (drop (length old) (c # cs))
      else c # replace old new cs)"
  by pat_completeness auto
termination
  by (relation "measure (\<lambda>(old, new, s). length s)") (auto simp: neq_Nil_conv)

text \<open>\<^verbatim>\<open>s.split()\<close>: the maximal runs of characters that are not white space. The first
  argument is the word read so far.\<close>

fun split_from :: "string \<Rightarrow> string \<Rightarrow> string list" where
  "split_from w [] = (if w = [] then [] else [w])"
| "split_from w (c # cs) =
     (if isspace c then (if w = [] then split_from [] cs else w # split_from [] cs)
      else split_from (w @ [c]) cs)"

definition split :: "string \<Rightarrow> string list" where
  "split s = split_from [] s"

text \<open>\<^verbatim>\<open>s.capitalize()\<close>\<close>

fun capitalize :: "string \<Rightarrow> string" where
  "capitalize [] = []"
| "capitalize (c # cs) = upper c # map lower cs"

text \<open>\<^verbatim>\<open>sep.join(ws)\<close>\<close>

fun join :: "string \<Rightarrow> string list \<Rightarrow> string" where
  "join sep [] = []"
| "join sep [w] = w"
| "join sep (w # v # ws) = w @ sep @ join sep (v # ws)"

text \<open>\<^verbatim>\<open>string.capwords(s)\<close> is \<^verbatim>\<open>' '.join(x.capitalize() for x in s.split())\<close>.\<close>

definition capwords :: "string \<Rightarrow> string" where
  "capwords s = join '' '' (map capitalize (split s))"

text \<open>\<^verbatim>\<open>re.sub(r'[^A-Za-z0-9]+', '_', s)\<close>: at a character outside the class the
  pattern matches the longest run of such characters, which one underscore replaces.\<close>

function re_sub :: "string \<Rightarrow> string" where
  "re_sub [] = []"
| "re_sub (c # cs) =
     (if isalnum c then c # re_sub cs
      else CHR ''_'' # re_sub (dropWhile (\<lambda>d. \<not> isalnum d) cs))"
  by pat_completeness auto
termination
  by (relation "measure length") (auto simp: length_dropWhile_le less_Suc_eq_le)

section \<open>A decoder for a fragment of JSON\<close>

text \<open>
  \<^verbatim>\<open>json.loads\<close> belongs to Python's standard library. The model of \<^verbatim>\<open>parse_content\<close>
  takes the decoder as a parameter, and every general theorem holds for each decoder.
  To run the program on a concrete response text, \<open>json_loads\<close> decodes the fragment of
  JSON made of objects, arrays, strings without escapes and the literals \<^verbatim>\<open>true\<close>,
  \<^verbatim>\<open>false\<close> and \<^verbatim>\<open>null\<close>. It answers \<open>None\<close> for a text that is not JSON and for JSON
  outside the fragment; below it is applied only to texts inside the fragment and to
  texts that are not JSON at all. The first argument of the three parsing functions
  bounds the number of nested calls.
\<close>

definition json_ws :: "char \<Rightarrow> bool" where
  "json_ws c = (c = CHR '' '' \<or> c = CHR 0x09 \<or> c = CHR 0x0A \<or> c = CHR 0x0D)"

definition skip_ws :: "string \<Rightarrow> string" where
  "skip_ws s = dropWhile json_ws s"

fun scan_string :: "string \<Rightarrow> (string \<times> string) option" where
  "scan_string [] = None"
| "scan_string (c # cs) =
     (if c = CHR 0x22 then Some ([], cs)
      else if c = CHR 0x5C \<or> (of_char c :: nat) < 32 then None
      else (case scan_string cs of None \<Rightarrow> None | Some (s, r) \<Rightarrow> Some (c # s, r)))"

text \<open>A key met again keeps its place and takes the later value, as in a Python dictionary.\<close>

definition dict_set :: "(string \<times> json) list \<Rightarrow> string \<Rightarrow> json \<Rightarrow> (string \<times> json) list" where
  "dict_set d k v =
     (if map_of d k = None then d @ [(k, v)]
      else map (\<lambda>kv. if fst kv = k then (k, v) else kv) d)"

definition dict_of_pairs :: "(string \<times> json) list \<Rightarrow> (string \<times> json) list" where
  "dict_of_pairs kvs = foldl (\<lambda>d kv. dict_set d (fst kv) (snd kv)) [] kvs"

fun parse_value :: "nat \<Rightarrow> string \<Rightarrow> (json \<times> string) option"
  and parse_elements :: "nat \<Rightarrow> string \<Rightarrow> (json list \<times> string) option"
  and parse_members :: "nat \<Rightarrow> string \<Rightarrow> ((string \<times> json) list \<times> string) option"
where
  "parse_value 0 s = None"
| "parse_value (Suc n) s =
     (case skip_ws s of
        [] \<Rightarrow> None
      | c # r \<Rightarrow>
          if c = CHR ''{'' then
            (case skip_ws r of
               [] \<Rightarrow> None
             | d # r' \<Rightarrow>
                 if d = CHR ''}'' then Some (JObj [], r')
                 else (case parse_members n r of
                         None \<Rightarrow> None
                       | Some (kvs, t) \<Rightarrow> Some (JObj (dict_of_pairs kvs), t)))
          else if c = CHR ''['' then
            (case skip_ws r of
               [] \<Rightarrow> None
             | d # r' \<Rightarrow>
                 if d = CHR '']'' then Some (JArr [], r')
                 else (case parse_elements n r of
                         None \<Rightarrow> None
                       | Some (vs, t) \<Rightarrow> Some (JArr vs, t)))
          else if c = CHR 0x22 then
            (case scan_string r of None \<Rightarrow> None | Some (x, t) \<Rightarrow> Some (JStr x, t))
          else if prefix ''true'' (c # r) then Some (JBool True, drop 4 (c # r))
          else if prefix ''false'' (c # r) then Some (JBool False, drop 5 (c # r))
          else if prefix ''null'' (c # r) then Some (JNull, drop 4 (c # r))
          else None)"
| "parse_elements 0 s = None"
| "parse_elements (Suc n) s =
     (case parse_value n s of
        None \<Rightarrow> None
      | Some (v, r) \<Rightarrow>
          (case skip_ws r of
             [] \<Rightarrow> None
           | c # r' \<Rightarrow>
               if c = CHR '','' then
                 (case parse_elements n r' of
                    None \<Rightarrow> None
                  | Some (vs, t) \<Rightarrow> Some (v # vs, t))
               else if c = CHR '']'' then Some ([v], r')
               else None))"
| "parse_members 0 s = None"
| "parse_members (Suc n) s =
     (case skip_ws s of
        [] \<Rightarrow> None
      | q # r \<Rightarrow>
          if q \<noteq> CHR 0x22 then None
          else
            (case scan_string r of
               None \<Rightarrow> None
             | Some (k, r1) \<Rightarrow>
                 (case skip_ws r1 of
                    [] \<Rightarrow> None
                  | c # r2 \<Rightarrow>
                      if c \<noteq> CHR '':'' then None
                      else
                        (case parse_value n r2 of
                           None \<Rightarrow> None
                         | Some (v, r3) \<Rightarrow>
                             (case skip_ws r3 of
                                [] \<Rightarrow> None
                              | d # r4 \<Rightarrow>
                                  if d = CHR '','' then
                                    (case parse_members n r4 of
                                       None \<Rightarrow> None
                                     | Some (kvs, t) \<Rightarrow> Some ((k, v) # kvs, t))
                                  else if d = CHR ''}'' then Some ([(k, v)], r4)
                                  else None)))))"

definition json_loads :: "string \<Rightarrow> json option" where
  "json_loads s =
     (case parse_value (2 * length s + 2) s of
        None \<Rightarrow> None
      | Some (v, r) \<Rightarrow> if skip_ws r = [] then Some v else None)"

section \<open>The mapper: \<^verbatim>\<open>parse_content\<close>\<close>

text \<open>
  What \<^verbatim>\<open>parse_content\<close> takes from outside the program:
  \<^item> \<open>generate\<close>: the text-understanding service, as a function of the extracted text
    (the prompt is a fixed template around it). \<open>Some r\<close> is the concatenation of the
    streamed chunks, \<open>None\<close> is any exception raised while calling or reading the stream.
  \<^item> \<open>loads\<close>: \<^verbatim>\<open>json.loads\<close>; \<open>None\<close> is \<^verbatim>\<open>JSONDecodeError\<close>.
  \<^item> \<open>dump_ok\<close>: whether opening and writing \<^verbatim>\<open>parsed_resume.json\<close> succeeds.
\<close>

record service =
  generate :: "string \<Rightarrow> string option"
  loads :: "string \<Rightarrow> json option"
  dump_ok :: bool

text \<open>Lines 190 and 191: the clean-up of the response before it is decoded.\<close>

definition clean_response :: "string \<Rightarrow> string" where
  "clean_response response_text =
     strip (replace ''```'' [] (replace ''```json'' [] (strip response_text)))"

text \<open>
  \<^verbatim>\<open>parse_content(text, api_key)\<close>. The missing key raises \<^verbatim>\<open>ValueError\<close> before the
  \<^verbatim>\<open>try\<close>. Inside it, a \<^verbatim>\<open>JSONDecodeError\<close> and every other exception, the one of the
  \<^verbatim>\<open>with open(...)\<close> block included, end in \<^verbatim>\<open>return {}\<close>.
\<close>

definition parse_content :: "service \<Rightarrow> string \<Rightarrow> string option \<Rightarrow> error + json" where
  "parse_content sv text api_key =
     (if api_key = None \<or> api_key = Some [] then Inl ValueError
      else
        (case generate sv text of
           None \<Rightarrow> Inr (JObj [])
         | Some response_text \<Rightarrow>
             (case loads sv (clean_response response_text) of
                None \<Rightarrow> Inr (JObj [])
              | Some parsed_data \<Rightarrow>
                  if dump_ok sv then Inr parsed_data else Inr (JObj []))))"

text \<open>A payload inside a Markdown fence: \<^verbatim>\<open>```json\<close>, a line break, the payload, a line
  break, \<^verbatim>\<open>```\<close>.\<close>

definition fence :: "string \<Rightarrow> string" where
  "fence p = ''```json'' @ [CHR 0x0A] @ p @ [CHR 0x0A] @ ''```''"

text \<open>The fields of the schema that the prompt of \<^verbatim>\<open>parse_content\<close> declares.\<close>

definition schema_fields :: "string list" where
  "schema_fields =
     [''name'', ''email'', ''phone'', ''linkedin'', ''github'', ''skills'', ''skills_matrix'',
      ''certifications'', ''summary'', ''education'', ''experience'', ''projects'', ''awards'']"

text \<open>A record has a field when it is a dictionary that holds the key with a value other
  than \<^verbatim>\<open>None\<close>.\<close>

definition has_field :: "json \<Rightarrow> string \<Rightarrow> bool" where
  "has_field d k =
     (case d of
        JObj kvs \<Rightarrow> (case map_of kvs k of None \<Rightarrow> False | Some v \<Rightarrow> v \<noteq> JNull)
      | _ \<Rightarrow> False)"

definition has_all_fields :: "json \<Rightarrow> bool" where
  "has_all_fields d = list_all (has_field d) schema_fields"

section \<open>The document\<close>

text \<open>
  The renderer builds the document through the python-docx package, by calls that each
  append a paragraph or a table to the body. The model is the sequence of blocks that
  the calls append, with the text and the formatting the code gives them; how the
  package encodes them in the file is not part of it.
\<close>

datatype alignment = AlignLeft | AlignCenter | AlignRight

record run =
  run_text :: string
  theme_font :: "string option"
  font_size :: "nat option"
  bold :: "bool option"
  underline :: "bool option"
  color :: "(nat \<times> nat \<times> nat) option"

record cell =
  cell_runs :: "run list"
  shading :: "string option"

datatype block =
    Paragraph "alignment option" "string option" "run list"
  | Logo string
  | Table string "cell list list"

record document =
  footer_runs :: "run list"
  body :: "block list"

text \<open>
  What the renderer takes from outside the program:
  \<^item> \<open>str_of\<close>: Python's \<^verbatim>\<open>str(x)\<close> for a value that is not a string;
  \<^item> \<open>run_text_of\<close>: what python-docx does with a text argument that is not a string,
    the text it writes or the exception it raises;
  \<^item> \<open>file_at\<close>: what is at the path of the logo;
  \<^item> \<open>save_ok\<close>: whether \<^verbatim>\<open>doc.save(path)\<close> succeeds.
\<close>

datatype file_state = Missing | Image | NotImage

record docx_env =
  str_of :: "json \<Rightarrow> string"
  run_text_of :: "json \<Rightarrow> error + string"
  file_at :: "string \<Rightarrow> file_state"
  save_ok :: "string \<Rightarrow> bool"

definition py_str :: "docx_env \<Rightarrow> json \<Rightarrow> string" where
  "py_str ev x = (case x of JStr s \<Rightarrow> s | _ \<Rightarrow> str_of ev x)"

definition text_of :: "docx_env \<Rightarrow> json \<Rightarrow> error + string" where
  "text_of ev x = (case x of JStr s \<Rightarrow> Inr s | _ \<Rightarrow> run_text_of ev x)"

definition new_run :: "string \<Rightarrow> run" where
  "new_run t =
     \<lparr>run_text = t, theme_font = None, font_size = None, bold = None, underline = None,
      color = None\<rparr>"

text \<open>\<^verbatim>\<open>_apply_theme_body_font(run, size_pt, bold, underline, color)\<close>\<close>

definition apply_theme_body_font ::
  "run \<Rightarrow> nat option \<Rightarrow> bool \<Rightarrow> bool \<Rightarrow> (nat \<times> nat \<times> nat) option \<Rightarrow> run" where
  "apply_theme_body_font r size_pt b u col =
     r\<lparr>theme_font := Some ''minorHAnsi'',
       font_size := (if size_pt = None \<or> size_pt = Some 0 then font_size r else size_pt),
       bold := Some b,
       underline := Some u,
       color := (case col of None \<Rightarrow> color r | Some c \<Rightarrow> Some c)\<rparr>"

text \<open>\<^verbatim>\<open>doc.add_paragraph(text, style)\<close>: the paragraph gets a run only when the text is
  true.\<close>

definition add_paragraph :: "docx_env \<Rightarrow> json \<Rightarrow> string option \<Rightarrow> error + block" where
  "add_paragraph ev text style =
     (if truthy text then bind (text_of ev text) (\<lambda>s. Inr (Paragraph None style [new_run s]))
      else Inr (Paragraph None style []))"

text \<open>\<^verbatim>\<open>_apply_theme_body_font(para.runs[0], ...)\<close>: \<^verbatim>\<open>IndexError\<close> on a paragraph
  without a run.\<close>

definition format_first_run :: "block \<Rightarrow> (run \<Rightarrow> run) \<Rightarrow> error + block" where
  "format_first_run b f =
     (case b of
        Paragraph a st (r # rs) \<Rightarrow> Inr (Paragraph a st (f r # rs))
      | _ \<Rightarrow> Inl IndexError)"

text \<open>A \<^verbatim>\<open>for\<close> loop whose body appends blocks: the blocks of all rounds in order, or the
  first exception.\<close>

fun for_each :: "('a \<Rightarrow> error + 'b list) \<Rightarrow> 'a list \<Rightarrow> error + 'b list" where
  "for_each f [] = Inr []"
| "for_each f (x # xs) = bind (f x) (\<lambda>bs. bind (for_each f xs) (\<lambda>rest. Inr (bs @ rest)))"

text \<open>\<^verbatim>\<open>_add_section_heading(doc, text)\<close>\<close>

definition add_section_heading :: "string \<Rightarrow> block" where
  "add_section_heading text =
     Paragraph (Some AlignLeft) None [apply_theme_body_font (new_run text) (Some 14) True True None]"

text \<open>\<^verbatim>\<open>_add_logo_top_right(doc, logo_path)\<close>\<close>

definition add_logo_top_right :: "docx_env \<Rightarrow> string \<Rightarrow> error + block list" where
  "add_logo_top_right ev logo_path =
     (case file_at ev logo_path of
        Missing \<Rightarrow> Inr []
      | Image \<Rightarrow> Inr [Logo logo_path]
      | NotImage \<Rightarrow> Inl ImageError)"

subsection \<open>\<^verbatim>\<open>_build_skill_matrix\<close>\<close>

definition headers :: "string list" where
  "headers = [''Area'', ''Years'', ''Latest 3 Clients Used'', ''Level'']"

text \<open>Lines 299 to 307, one round of the loop over the headers.\<close>

definition header_cell :: "string \<Rightarrow> cell" where
  "header_cell h =
     \<lparr>cell_runs =
        [(apply_theme_body_font (new_run h) (Some 12) True False None)
           \<lparr>color := Some (255, 255, 255)\<rparr>],
      shading = Some ''5A2A82''\<rparr>"

definition text_cell :: "string \<Rightarrow> cell" where
  "text_cell t = \<lparr>cell_runs = [new_run t], shading = None\<rparr>"

text \<open>Lines 280 to 285, the entry made from one skill.\<close>

definition skill_entry :: "json \<Rightarrow> json" where
  "skill_entry skill =
     JObj [(''skills'', skill), (''years_experience'', JStr []), (''last_used'', JStr []),
           (''proficiency'', JStr [])]"

text \<open>Lines 311 to 315, one round of the loop over the rows.\<close>

definition data_row :: "docx_env \<Rightarrow> json \<Rightarrow> error + cell list list" where
  "data_row ev skill =
     bind (dict_get skill ''skills'' (JStr [])) (\<lambda>a.
     bind (dict_get skill ''years_experience'' (JStr [])) (\<lambda>b.
     bind (dict_get skill ''last_used'' (JStr [])) (\<lambda>c.
     bind (dict_get skill ''proficiency'' (JStr [])) (\<lambda>d.
     Inr [[text_cell (py_str ev a), text_cell (py_str ev b), text_cell (py_str ev c),
           text_cell (py_str ev d)]]))))"

definition build_skill_matrix :: "docx_env \<Rightarrow> json \<Rightarrow> error + block list" where
  "build_skill_matrix ev parsed_data =
     bind (dict_get parsed_data ''skills_matrix'' (JArr [])) (\<lambda>given.
     bind (if truthy given then Inr given
           else
             bind (dict_get parsed_data ''skills'' JNull) (\<lambda>skills.
             if truthy skills then
               bind (subscript parsed_data ''skills'') (\<lambda>skills.
               bind (slice10 skills) (\<lambda>first.
               bind (iterate first) (\<lambda>items. Inr (JArr (map skill_entry items)))))
             else Inr given)) (\<lambda>skills_matrix.
     if \<not> truthy skills_matrix then Inr []
     else
       bind (slice10 skills_matrix) (\<lambda>first.
       bind (iterate first) (\<lambda>items.
       bind (for_each (data_row ev) items) (\<lambda>rows.
       Inr [Table ''Table Grid'' (map header_cell headers # rows)])))))"

subsection \<open>\<^verbatim>\<open>create_formatted_docx\<close>\<close>

definition footer_text :: string where
  "footer_text =
     ''www.quadranttechnologies.com                             5020, 148th Avenue NE, Suite-250, Redmond, WA-98052''"

definition body_font :: "run \<Rightarrow> run" where
  "body_font r = apply_theme_body_font r (Some 12) False False None"

definition bold_font :: "run \<Rightarrow> run" where
  "bold_font r = apply_theme_body_font r (Some 12) True False None"

text \<open>Lines 334 to 342, the name.\<close>

definition render_name :: "json \<Rightarrow> error + block list" where
  "render_name parsed_data =
     bind (dict_get parsed_data ''name'' (JStr ''Name Not Found'')) (\<lambda>name.
     case name of
       JStr s \<Rightarrow>
         (let raw_name = strip s;
              formatted_name = capwords raw_name
          in Inr [Paragraph (Some AlignCenter) None
                    [apply_theme_body_font (new_run formatted_name) (Some 14) True False None]])
     | _ \<Rightarrow> Inl AttributeError)"

text \<open>Lines 347 to 356, the contact lines.\<close>

definition contact_line :: "docx_env \<Rightarrow> json \<Rightarrow> error + block list" where
  "contact_line ev detail =
     bind (text_of ev detail) (\<lambda>s.
     Inr [Paragraph (Some AlignCenter) None [body_font (new_run s)]])"

definition render_contact :: "docx_env \<Rightarrow> json \<Rightarrow> error + block list" where
  "render_contact ev parsed_data =
     bind (dict_get parsed_data ''phone'' (JStr [])) (\<lambda>phone.
     bind (dict_get parsed_data ''email'' (JStr [])) (\<lambda>email.
     bind (dict_get parsed_data ''linkedin'' (JStr [])) (\<lambda>linkedin.
     for_each (contact_line ev) (filter truthy [phone, email, linkedin]))))"

text \<open>Lines 359 to 362, the summary.\<close>

definition render_summary :: "docx_env \<Rightarrow> json \<Rightarrow> error + block list" where
  "render_summary ev parsed_data =
     bind (dict_get parsed_data ''summary'' JNull) (\<lambda>summary.
     if truthy summary then
       bind (subscript parsed_data ''summary'') (\<lambda>summary.
       bind (add_paragraph ev summary None) (\<lambda>para.
       bind (format_first_run para body_font) (\<lambda>para.
       Inr [add_section_heading ''Candidate Strengths'', para])))
     else Inr [])"

text \<open>Lines 369 to 373, the certifications.\<close>

definition certification_line :: "docx_env \<Rightarrow> json \<Rightarrow> error + block list" where
  "certification_line ev cert =
     bind (dict_get cert ''name'' (JStr [])) (\<lambda>name.
     bind (dict_get cert ''issuer'' (JStr [])) (\<lambda>issuer.
     bind (add_paragraph ev (JStr (py_str ev name @ '' - '' @ py_str ev issuer))
             (Some ''List Bullet'')) (\<lambda>para.
     bind (format_first_run para body_font) (\<lambda>para. Inr [para]))))"

definition render_certifications :: "docx_env \<Rightarrow> json \<Rightarrow> error + block list" where
  "render_certifications ev parsed_data =
     bind (dict_get parsed_data ''certifications'' JNull) (\<lambda>certifications.
     if truthy certifications then
       bind (subscript parsed_data ''certifications'') (\<lambda>certifications.
       bind (iterate certifications) (\<lambda>items.
       bind (for_each (certification_line ev) items) (\<lambda>lines.
       Inr (add_section_heading ''Certifications'' # lines))))
     else Inr [])"

text \<open>Lines 376 to 381, the education.\<close>

definition education_line :: "docx_env \<Rightarrow> json \<Rightarrow> error + block list" where
  "education_line ev edu =
     bind (dict_get edu ''degree'' (JStr [])) (\<lambda>degree.
     bind (dict_get edu ''major'' (JStr [])) (\<lambda>major.
     bind (dict_get edu ''university'' (JStr [])) (\<lambda>university.
     bind (add_paragraph ev
             (JStr (py_str ev degree @ '' in '' @ py_str ev major @ '' - '' @ py_str ev university))
             (Some ''List Bullet'')) (\<lambda>para.
     bind (format_first_run para body_font) (\<lambda>para. Inr [para])))))"

definition render_education :: "docx_env \<Rightarrow> json \<Rightarrow> error + block list" where
  "render_education ev parsed_data =
     bind (dict_get parsed_data ''education'' JNull) (\<lambda>education.
     if truthy education then
       bind (subscript parsed_data ''education'') (\<lambda>education.
       bind (iterate education) (\<lambda>items.
       bind (for_each (education_line ev) items) (\<lambda>lines.
       Inr (add_section_heading ''Education'' # lines))))
     else Inr [])"

text \<open>Lines 384 to 391, the experience.\<close>

definition bullet :: "docx_env \<Rightarrow> json \<Rightarrow> error + block list" where
  "bullet ev point =
     bind (add_paragraph ev point (Some ''List Bullet'')) (\<lambda>para.
     bind (format_first_run para body_font) (\<lambda>para. Inr [para]))"

definition experience_entry :: "docx_env \<Rightarrow> json \<Rightarrow> error + block list" where
  "experience_entry ev entry =
     bind (dict_get entry ''job_title'' (JStr [])) (\<lambda>job_title.
     bind (dict_get entry ''company'' (JStr [])) (\<lambda>company.
     bind (dict_get entry ''start_date'' (JStr [])) (\<lambda>start_date.
     bind (dict_get entry ''end_date'' (JStr [])) (\<lambda>end_date.
     bind (add_paragraph ev
             (JStr (py_str ev job_title @ '' - '' @ py_str ev company @ '' ('' @
                    py_str ev start_date @ '' - '' @ py_str ev end_date @ '')''))
             None) (\<lambda>para.
     bind (format_first_run para bold_font) (\<lambda>para.
     bind (dict_get entry ''Description'' (JArr [])) (\<lambda>description.
     bind (iterate description) (\<lambda>points.
     bind (for_each (bullet ev) points) (\<lambda>bullets.
     Inr (para # bullets))))))))))"

definition render_experience :: "docx_env \<Rightarrow> json \<Rightarrow> error + block list" where
  "render_experience ev parsed_data =
     bind (dict_get parsed_data ''experience'' JNull) (\<lambda>experience.
     if truthy experience then
       bind (subscript parsed_data ''experience'') (\<lambda>experience.
       bind (iterate experience) (\<lambda>items.
       bind (for_each (experience_entry ev) items) (\<lambda>entries.
       Inr (add_section_heading ''Professional Experience'' # entries))))
     else Inr [])"

text \<open>Lines 394 to 405, the projects.\<close>

definition labelled_line :: "docx_env \<Rightarrow> json \<Rightarrow> string \<Rightarrow> string \<Rightarrow> error + block list" where
  "labelled_line ev proj key label =
     bind (dict_get proj key JNull) (\<lambda>value.
     if truthy value then
       bind (subscript proj key) (\<lambda>value.
       bind (add_paragraph ev (JStr (label @ py_str ev value)) None) (\<lambda>para. Inr [para]))
     else Inr [])"

definition project_entry :: "docx_env \<Rightarrow> json \<Rightarrow> error + block list" where
  "project_entry ev proj =
     bind (dict_get proj ''project_name'' (JStr [])) (\<lambda>project_name.
     bind (dict_get proj ''client'' (JStr [])) (\<lambda>client.
     bind (dict_get proj ''date_range'' (JStr [])) (\<lambda>date_range.
     bind (add_paragraph ev
             (JStr (py_str ev project_name @ '' - '' @ py_str ev client @ '' ('' @
                    py_str ev date_range @ '')''))
             None) (\<lambda>para.
     bind (format_first_run para bold_font) (\<lambda>para.
     bind (dict_get proj ''content'' (JArr [])) (\<lambda>content.
     bind (iterate content) (\<lambda>points.
     bind (for_each (bullet ev) points) (\<lambda>bullets.
     bind (labelled_line ev proj ''technologies'' ''Technologies: '') (\<lambda>technologies.
     bind (labelled_line ev proj ''environment'' ''Environment: '') (\<lambda>environment.
     Inr (para # bullets @ technologies @ environment)))))))))))"

definition render_projects :: "docx_env \<Rightarrow> json \<Rightarrow> error + block list" where
  "render_projects ev parsed_data =
     bind (dict_get parsed_data ''projects'' JNull) (\<lambda>projects.
     if truthy projects then
       bind (subscript parsed_data ''projects'') (\<lambda>projects.
       bind (iterate projects) (\<lambda>items.
       bind (for_each (project_entry ev) items) (\<lambda>entries.
       Inr (add_section_heading ''Projects'' # entries))))
     else Inr [])"

text \<open>
  \<^verbatim>\<open>create_formatted_docx(parsed_data, output_path, logo_path)\<close>. An exception of a
  section leaves the function before the document is saved. The result is the document
  and whether saving it succeeded; a failed save is printed, not raised.
\<close>

definition create_formatted_docx ::
  "docx_env \<Rightarrow> json \<Rightarrow> string \<Rightarrow> string \<Rightarrow> error + document \<times> bool" where
  "create_formatted_docx ev parsed_data output_path logo_path =
     bind (add_logo_top_right ev logo_path) (\<lambda>logo.
     bind (render_name parsed_data) (\<lambda>name.
     bind (render_contact ev parsed_data) (\<lambda>contact.
     bind (render_summary ev parsed_data) (\<lambda>summary.
     bind (build_skill_matrix ev parsed_data) (\<lambda>skill_matrix.
     bind (render_certifications ev parsed_data) (\<lambda>certifications.
     bind (render_education ev parsed_data) (\<lambda>education.
     bind (render_experience ev parsed_data) (\<lambda>experience.
     bind (render_projects ev parsed_data) (\<lambda>projects.
     Inr (\<lparr>footer_runs = [apply_theme_body_font (new_run footer_text) (Some 10) False False None],
           body = logo @ name @ contact @ summary @ [add_section_heading ''Skill Matrix''] @
                  skill_matrix @ certifications @ education @ experience @ projects\<rparr>,
          save_ok ev output_path))))))))))"

section \<open>The pipeline\<close>

text \<open>
  The script's main block (lines 417 to 451). \<open>extracted\<close> is what \<^verbatim>\<open>extract_text\<close>
  returned for the resume, \<open>None\<close> after any of its errors. An exception that nothing
  catches ends the run: \<open>Uncaught\<close>.
\<close>

datatype outcome = Exit1 | NoText | Uncaught error | Rendered string document bool

definition output_path_of :: "string \<Rightarrow> string" where
  "output_path_of safe_name = ''YOUR_FILE_PATH'' @ [CHR 0x5C] @ safe_name @ ''_resume.docx''"

text \<open>Line 445: \<^verbatim>\<open>re.sub(r'[^A-Za-z0-9]+', '_', string.capwords(parsed_data['name']))\<close>.\<close>

definition safe_name_of :: "json \<Rightarrow> error + string" where
  "safe_name_of parsed_data =
     bind (subscript parsed_data ''name'') (\<lambda>name.
     case name of
       JStr s \<Rightarrow> Inr (re_sub (capwords s))
     | _ \<Rightarrow> Inl AttributeError)"

definition main :: "service \<Rightarrow> docx_env \<Rightarrow> string option \<Rightarrow> string option \<Rightarrow> outcome" where
  "main sv ev GEMINI_API_KEY extracted =
     (if GEMINI_API_KEY = None \<or> GEMINI_API_KEY = Some [] then Exit1
      else
        (case extracted of
           None \<Rightarrow> NoText
         | Some text \<Rightarrow>
             if text = [] then NoText
             else
               (case bind (parse_content sv text GEMINI_API_KEY) (\<lambda>parsed_data.
                     bind (safe_name_of parsed_data) (\<lambda>safe_name.
                     bind (create_formatted_docx ev parsed_data (output_path_of safe_name)
                             ''logo.png'') (\<lambda>result.
                     Inr (output_path_of safe_name, result))))
                of
                  Inl e \<Rightarrow> Uncaught e
                | Inr (output_path, doc, saved) \<Rightarrow> Rendered output_path doc saved)))"

text \<open>An environment and a service for the concrete runs below. Their records hold
  strings only, so that the first two fields of the environment are never consulted;
  there is no logo file, and saving succeeds. The service answers every text with the
  given response, decodes with \<open>json_loads\<close> and writes its debug file.\<close>

definition plain_env :: docx_env where
  "plain_env =
     \<lparr>str_of = (\<lambda>x. []), run_text_of = (\<lambda>x. Inl TypeError), file_at = (\<lambda>p. Missing),
      save_ok = (\<lambda>p. True)\<rparr>"

definition answering :: "string \<Rightarrow> service" where
  "answering response = \<lparr>generate = (\<lambda>text. Some response), loads = json_loads, dump_ok = True\<rparr>"

section \<open>Vocabulary of the specification\<close>

text \<open>The maximal runs of a list: each run is as long as its elements agree on \<open>P\<close>.\<close>

function runs :: "('a \<Rightarrow> bool) \<Rightarrow> 'a list \<Rightarrow> 'a list list" where
  "runs P [] = []"
| "runs P (x # xs) =
     (x # takeWhile (\<lambda>y. P y = P x) xs) # runs P (dropWhile (\<lambda>y. P y = P x) xs)"
  by pat_completeness auto
termination
  by (relation "measure (\<lambda>(P, xs). length xs)") (auto simp: length_dropWhile_le less_Suc_eq_le)


text \<open>The name line of the header, and a line of the body in the regular and in the bold
  body font.\<close>

definition name_line :: "string \<Rightarrow> block" where
  "name_line t =
     Paragraph (Some AlignCenter) None
       [\<lparr>run_text = t, theme_font = Some ''minorHAnsi'', font_size = Some 14, bold = Some True,
         underline = Some False, color = None\<rparr>]"










text \<open>A cell with plain text, and the row made from one skill: its name, then three empty
  cells.\<close>

definition plain_cell :: "string \<Rightarrow> cell" where
  "plain_cell t =
     \<lparr>cell_runs = [\<lparr>run_text = t, theme_font = None, font_size = None, bold = None,
                     underline = None, color = None\<rparr>],
      shading = None\<rparr>"



text \<open>A header cell of the skill table with its label: bold white text of size 12 on the
  fill colour 5A2A82.\<close>

definition label_cell :: "string \<Rightarrow> cell" where
  "label_cell t =
     \<lparr>cell_runs =
        [\<lparr>run_text = t, theme_font = Some ''minorHAnsi'', font_size = Some 12, bold = Some True,
          underline = Some False, color = Some (255, 255, 255)\<rparr>],
      shading = Some ''5A2A82''\<rparr>"

definition cell_text :: "cell \<Rightarrow> string" where
  "cell_text c = concat (map run_text (cell_runs c))"



section \<open>Lemmas on the string methods\<close>

lemma prefix_mid_notin:
  assumes "c \<notin> set old"
  shows "prefix old (u @ c # t) \<longleftrightarrow> prefix old u"
proof
  assume "prefix old (u @ c # t)"
  then have "prefix old u \<or> (\<exists>w. old = u @ w \<and> prefix w (c # t))"
    by (simp add: prefix_append)
  then show "prefix old u"
  proof
    assume "prefix old u" then show ?thesis .
  next
    assume "\<exists>w. old = u @ w \<and> prefix w (c # t)"
    then obtain w where w: "old = u @ w" "prefix w (c # t)" by blast
    show ?thesis
    proof (cases w)
      case Nil
      with w show ?thesis by simp
    next
      case (Cons x w')
      with w have "c \<in> set old" by simp
      with assms show ?thesis by simp
    qed
  qed
next
  assume "prefix old u" then show "prefix old (u @ c # t)" by (simp add: prefix_prefix)
qed

lemma drop_append_le: "n \<le> length xs \<Longrightarrow> drop n (xs @ ys) = drop n xs @ ys"
  by simp

lemma replace_skip:
  "c \<notin> set old \<Longrightarrow> old \<noteq> [] \<Longrightarrow> replace old new (c # s) = c # replace old new s"
  by (cases old) (auto simp: prefix_Cons)

lemma replace_mid:
  "c \<notin> set old \<Longrightarrow> old \<noteq> [] \<Longrightarrow>
   replace old new (u @ c # t) = replace old new u @ c # replace old new t"
proof (induction old new u rule: replace.induct)
  case (1 old new)
  then show ?case by (simp add: replace_skip del: replace.simps(2))
next
  case (2 old new a u)
  show ?case
  proof (cases "prefix old (a # u)")
    case True
    then have le: "length old \<le> length (a # u)" by (rule prefix_length_le)
    from True 2(4) have p: "prefix old ((a # u) @ c # t)" by (simp add: prefix_prefix del: append_Cons)
    have "drop (length old) ((a # u) @ c # t) = drop (length old) (a # u) @ c # t"
      using le by (rule drop_append_le)
    with True p 2 show ?thesis by simp
  next
    case False
    with 2(4) have "\<not> prefix old ((a # u) @ c # t)" using prefix_mid_notin[of c old "a # u" t] by simp
    with False 2 show ?thesis by simp
  qed
qed

lemma replace_head:
  "old \<noteq> [] \<Longrightarrow> replace old new (old @ s) = new @ replace old new s"
  by (cases old) auto

lemma replace_spaces:
  "old \<noteq> [] \<Longrightarrow> list_all (\<lambda>c. c \<notin> set old) ws \<Longrightarrow> replace old new ws = ws"
  by (induction ws) (auto simp: replace_skip simp del: replace.simps(2))

lemma replace_pad:
  assumes "old \<noteq> []" "list_all (\<lambda>c. c \<notin> set old) a" "list_all (\<lambda>c. c \<notin> set old) b"
  shows "replace old new (a @ s @ b) = a @ replace old new s @ b"
proof -
  have l: "replace old new (a @ x) = a @ replace old new x" for x
    using assms(2) by (induction a) (auto simp: replace_skip assms(1) simp del: replace.simps(2))
  have r: "replace old new (s @ b) = replace old new s @ b"
  proof (cases b)
    case Nil then show ?thesis by simp
  next
    case (Cons c b')
    with assms(3) have "c \<notin> set old" "list_all (\<lambda>c. c \<notin> set old) b'" by auto
    then show ?thesis using Cons assms(1) by (simp add: replace_mid replace_spaces del: replace.simps(2))
  qed
  show ?thesis by (simp add: l r)
qed

lemma strip_pad:
  assumes "list_all isspace a" "list_all isspace b"
  shows "strip (a @ s @ b) = strip s"
proof -
  have a: "dropWhile isspace (a @ s @ b) = dropWhile isspace (s @ b)"
    using assms(1) by (simp add: list_all_iff)
  have b: "dropWhile isspace (rev b @ x) = dropWhile isspace x" for x
    using assms(2) by (intro dropWhile_append2) (simp add: list_all_iff)
  show ?thesis
  proof (cases "list_all isspace s")
    case True
    then have 1: "dropWhile isspace (s @ b) = []" and 2: "dropWhile isspace s = []"
      using assms(2) by (auto simp: list_all_iff)
    show ?thesis unfolding strip_def a 1 2 by (rule refl)
  next
    case False
    then obtain x where "x \<in> set s" "\<not> isspace x" by (auto simp: list_all_iff)
    then have "dropWhile isspace (s @ b) = dropWhile isspace s @ b"
      by (rule dropWhile_append1)
    then show ?thesis by (simp add: strip_def a b)
  qed
qed

lemma strip_decompose:
  "\<exists>a b. s = a @ strip s @ b \<and> list_all isspace a \<and> list_all isspace b"
proof -
  let ?m = "dropWhile isspace s"
  let ?a = "takeWhile isspace s"
  let ?b = "rev (takeWhile isspace (rev ?m))"
  have "s = ?a @ ?m" by simp
  moreover have "?m = strip s @ ?b"
  proof -
    have "rev (takeWhile isspace (rev ?m) @ dropWhile isspace (rev ?m)) = ?m"
      by (simp only: takeWhile_dropWhile_id rev_rev_ident)
    then have "rev (dropWhile isspace (rev ?m)) @ rev (takeWhile isspace (rev ?m)) = ?m"
      by (simp only: rev_append)
    then show ?thesis unfolding strip_def by (rule sym)
  qed
  moreover have "list_all isspace ?a" by (simp add: list_all_iff) (meson set_takeWhileD)
  moreover have "list_all isspace ?b" by (simp add: list_all_iff) (meson set_takeWhileD)
  ultimately show ?thesis by metis
qed

text \<open>Cleaning a fenced payload gives what cleaning the payload gives.\<close>

lemma clean_response_fence: "clean_response (fence p) = clean_response p"
proof -
  let ?r1 = "replace ''```json'' []" and ?r2 = "replace ''```'' []"
  obtain a b where s: "p = a @ strip p @ b" and a: "list_all isspace a" and b: "list_all isspace b"
    using strip_decompose by blast
  have nl: "isspace (CHR 0x0A)" by (simp add: isspace_def)
  have sf: "strip (fence p) = fence p"
    by (simp add: strip_def fence_def isspace_def)
  have f1: "?r1 (fence p) = CHR 0x0A # ?r1 p @ CHR 0x0A # ''```''"
  proof -
    have "?r1 (fence p) = ?r1 (CHR 0x0A # p @ CHR 0x0A # ''```'')"
      using replace_head[of "''```json''" "[]" "CHR 0x0A # p @ CHR 0x0A # ''```''"]
      by (simp add: fence_def)
    also have "\<dots> = CHR 0x0A # ?r1 (p @ CHR 0x0A # ''```'')"
      by (rule replace_skip) simp_all
    also have "?r1 (p @ CHR 0x0A # ''```'') = ?r1 p @ CHR 0x0A # ?r1 ''```''"
      by (rule replace_mid) simp_all
    also have "?r1 ''```'' = ''```''" by simp
    finally show ?thesis .
  qed
  have f2: "?r2 (CHR 0x0A # ?r1 p @ CHR 0x0A # ''```'') = CHR 0x0A # ?r2 (?r1 p) @ [CHR 0x0A]"
  proof -
    have "?r2 (CHR 0x0A # ?r1 p @ CHR 0x0A # ''```'') = CHR 0x0A # ?r2 (?r1 p @ CHR 0x0A # ''```'')"
      by (rule replace_skip) simp_all
    also have "?r2 (?r1 p @ CHR 0x0A # ''```'') = ?r2 (?r1 p) @ CHR 0x0A # ?r2 ''```''"
      by (rule replace_mid) simp_all
    also have "?r2 ''```'' = []" by simp
    finally show ?thesis .
  qed
  have "clean_response (fence p) = strip (CHR 0x0A # ?r2 (?r1 p) @ [CHR 0x0A])"
    unfolding clean_response_def sf f1 f2 by (rule refl)
  also have "\<dots> = strip (?r2 (?r1 p))"
    using strip_pad[of "[CHR 0x0A]" "[CHR 0x0A]" "?r2 (?r1 p)"] nl by simp
  finally have lhs: "clean_response (fence p) = strip (?r2 (?r1 p))" .
  have na: "list_all (\<lambda>c. c \<notin> set ''```json'') a" "list_all (\<lambda>c. c \<notin> set ''```'') a"
    using a by (auto simp: list_all_iff isspace_def)
  have nb: "list_all (\<lambda>c. c \<notin> set ''```json'') b" "list_all (\<lambda>c. c \<notin> set ''```'') b"
    using b by (auto simp: list_all_iff isspace_def)
  have "?r2 (?r1 p) = ?r2 (?r1 (a @ strip p @ b))" using s by simp
  also have "\<dots> = ?r2 (a @ ?r1 (strip p) @ b)"
    using replace_pad[OF _ na(1) nb(1)] by simp
  also have "\<dots> = a @ ?r2 (?r1 (strip p)) @ b"
    using replace_pad[OF _ na(2) nb(2)] by simp
  finally have mid: "strip (?r2 (?r1 p)) = strip (?r2 (?r1 (strip p)))"
    using strip_pad[OF a b] by simp
  have rhs: "clean_response p = strip (?r2 (?r1 (strip p)))"
    unfolding clean_response_def by (rule refl)
  show ?thesis unfolding lhs rhs by (rule mid)
qed










lemma concat_runs: "concat (runs P xs) = xs"
  by (induction P xs rule: runs.induct) simp_all















section \<open>The mapper\<close>

text \<open>
  Claim C1, as the code has it. \<^verbatim>\<open>parse_content\<close> returns the decoded value unchanged:
  it fills in nothing. A field that the response omits is absent from the returned
  record, and reads as the default that the reader passes to \<^verbatim>\<open>get\<close>.
\<close>

theorem mapper_returns_decoded_value:
  assumes "api_key = Some k" and "k \<noteq> []"
    and "generate sv text = Some response"
    and "loads sv (clean_response response) = Some parsed"
    and "dump_ok sv"
  shows "parse_content sv text api_key = Inr parsed
       \<and> (parsed = JObj kvs \<and> map_of kvs f = None \<longrightarrow>
            \<not> has_field parsed f \<and> dict_get parsed f dflt = Inr dflt)"
  using assms by (auto simp: parse_content_def has_field_def dict_get_def)

theorem mapper_returns_decoded_value_witness:
  \<open>parse_content (answering ''{"name": "Ada"}'') ''resume text'' (Some ''key'')
     = Inr (JObj [(''name'', JStr ''Ada'')])
   \<and> \<not> has_field (JObj [(''name'', JStr ''Ada'')]) ''email''
   \<and> dict_get (JObj [(''name'', JStr ''Ada'')]) ''email'' (JStr []) = Inr (JStr [])\<close>
proof -
  have d: \<open>loads (answering ''{"name": "Ada"}'') (clean_response ''{"name": "Ada"}'')
           = Some (JObj [(''name'', JStr ''Ada'')])\<close>
    by code_simp
  have g: \<open>generate (answering ''{"name": "Ada"}'') ''resume text'' = Some ''{"name": "Ada"}''\<close>
    by (simp add: answering_def)
  have o: \<open>dump_ok (answering ''{"name": "Ada"}'')\<close>
    by (simp add: answering_def)
  show ?thesis
    using mapper_returns_decoded_value[OF refl _ g d o, of "''key''" "[(''name'', JStr ''Ada'')]"
        "''email''" "JStr []"]
    by simp
qed

text \<open>
  Claim C1, as the specification words it, fails: for the response \<^verbatim>\<open>{"name": "Ada"}\<close>
  the returned record holds the name alone, so not every field of the schema is present.
\<close>

theorem mapper_fills_defaults_counterexample:
  \<open>parse_content (answering ''{"name": "Ada"}'') ''resume text'' (Some ''key'')
     = Inr (JObj [(''name'', JStr ''Ada'')])
   \<and> \<not> has_all_fields (JObj [(''name'', JStr ''Ada'')])\<close>
  by code_simp

text \<open>Whatever the response, once the decoder rejects its cleaned text the main block
  ends in the \<^verbatim>\<open>KeyError\<close>.\<close>

lemma malformed_response_aborts:
  assumes "key \<noteq> []" and "text \<noteq> []"
    and "generate sv text = Some response"
    and "loads sv (clean_response response) = None"
  shows "main sv ev (Some key) (Some text) = Uncaught KeyError"
  using assms by (simp add: main_def parse_content_def bind_def safe_name_of_def subscript_def)

text \<open>
  Claim C2 against the code. The response is not JSON; \<^verbatim>\<open>parse_content\<close> returns the
  empty dictionary, and the main block then reads \<^verbatim>\<open>parsed_data['name']\<close>: the run ends
  in an uncaught \<^verbatim>\<open>KeyError\<close> and the renderer is never called.
\<close>

theorem pipeline_aborts_on_malformed_response:
  "main (answering ''Sorry, I could not read this resume.'') plain_env (Some ''key'')
     (Some ''resume text'') = Uncaught KeyError"
  by code_simp

text \<open>
  Claim C3 against the code. The response decodes, but writing \<^verbatim>\<open>parsed_resume.json\<close>
  fails: the handler for every other exception returns the empty dictionary, where the
  same run with a successful write returns the decoded record.
\<close>

theorem debug_write_failure_changes_record:
  \<open>parse_content ((answering ''{"name": "Ada"}'')\<lparr>dump_ok := False\<rparr>) ''resume text''
     (Some ''key'') = Inr (JObj [])
   \<and> parse_content (answering ''{"name": "Ada"}'') ''resume text'' (Some ''key'')
     = Inr (JObj [(''name'', JStr ''Ada'')])\<close>
  by code_simp



text \<open>
  Claim C5. A response that is the payload inside a Markdown fence gives the same result
  of \<^verbatim>\<open>parse_content\<close> as the payload itself, for every payload, decoder and service.
\<close>

theorem fence_does_not_change_record:
  "parse_content (sv\<lparr>generate := (\<lambda>t. Some (fence p))\<rparr>) text api_key
   = parse_content (sv\<lparr>generate := (\<lambda>t. Some p)\<rparr>) text api_key"
  by (simp add: parse_content_def clean_response_fence split: option.split)

text \<open>A fenced response that decodes, and a write failure in general.\<close>

lemma fenced_response_example:
  \<open>parse_content (answering (fence ''{"name": "Ada"}'')) ''resume text'' (Some ''key'')
     = Inr (JObj [(''name'', JStr ''Ada'')])\<close>
  by code_simp

lemma dump_failure_returns_empty:
  assumes "key \<noteq> []" and "generate sv text = Some response"
    and "loads sv (clean_response response) = Some parsed" and "\<not> dump_ok sv"
  shows "parse_content sv text (Some key) = Inr (JObj [])"
  using assms by (simp add: parse_content_def)

section \<open>The name\<close>



text \<open>The whole pipeline on this name: the path of the output file and the document.\<close>

lemma pipeline_example:
  \<open>main (answering ''{"name": "john q. public"}'') plain_env (Some ''key'') (Some ''resume text'')
   = Rendered (''YOUR_FILE_PATH'' @ [CHR 0x5C] @ ''John_Q_Public_resume.docx'')
       \<lparr>footer_runs = [apply_theme_body_font (new_run footer_text) (Some 10) False False None],
        body = [name_line ''John Q. Public'', add_section_heading ''Skill Matrix'']\<rparr>
       True\<close>
  by code_simp

section \<open>The skill matrix\<close>



lemma header_cell_label: "header_cell h = label_cell h"
  by (simp add: header_cell_def label_cell_def apply_theme_body_font_def new_run_def)






lemma data_rows_plain:
  "for_each (data_row ev) items = Inr rows \<Longrightarrow> list_all (list_all (\<lambda>c. shading c = None)) rows"
proof (induction items arbitrary: rows)
  case Nil
  then show ?case by simp
next
  case (Cons x xs)
  then show ?case
    by (auto simp: bind_def data_row_def text_cell_def split: sum.splits)
qed



text \<open>
  Claim C7, as the code has it. Whenever \<^verbatim>\<open>_build_skill_matrix\<close> adds a table, its first
  row is the four cells labelled Area, Years, Latest 3 Clients Used and Level, each in
  bold white text of size 12 on the fill colour 5A2A82, and no cell of the other rows is
  shaded.
\<close>

theorem skill_matrix_header:
  assumes "build_skill_matrix ev parsed_data = Inr blocks" and "blocks \<noteq> []"
  shows "\<exists>rows. blocks =
           [Table ''Table Grid''
             (map label_cell [''Area'', ''Years'', ''Latest 3 Clients Used'', ''Level''] # rows)]
         \<and> list_all (list_all (\<lambda>c. shading c = None)) rows"
  using assms
  by (auto simp: build_skill_matrix_def bind_def headers_def header_cell_label data_rows_plain
      split: sum.splits if_splits)

theorem skill_matrix_header_witness:
  "build_skill_matrix plain_env (JObj [(''skills'', JArr [JStr ''Python''])]) =
     Inr [Table ''Table Grid''
           [map label_cell [''Area'', ''Years'', ''Latest 3 Clients Used'', ''Level''],
            [plain_cell ''Python'', plain_cell [], plain_cell [], plain_cell []]]]
   \<and> (\<exists>rows. [Table ''Table Grid''
           [map label_cell [''Area'', ''Years'', ''Latest 3 Clients Used'', ''Level''],
            [plain_cell ''Python'', plain_cell [], plain_cell [], plain_cell []]]] =
           [Table ''Table Grid''
             (map label_cell [''Area'', ''Years'', ''Latest 3 Clients Used'', ''Level''] # rows)]
         \<and> list_all (list_all (\<lambda>c. shading c = None)) rows)"
proof -
  have b: "build_skill_matrix plain_env (JObj [(''skills'', JArr [JStr ''Python''])]) =
     Inr [Table ''Table Grid''
           [map label_cell [''Area'', ''Years'', ''Latest 3 Clients Used'', ''Level''],
            [plain_cell ''Python'', plain_cell [], plain_cell [], plain_cell []]]]"
    by code_simp
  show ?thesis using skill_matrix_header[OF b] b by simp
qed

text \<open>
  Claim C7, as the specification words it, fails: the third label of the rendered table
  is \<^verbatim>\<open>Latest 3 Clients Used\<close>, not \<^verbatim>\<open>Latest Clients Used\<close>.
\<close>

theorem skill_matrix_header_counterexample:
  "build_skill_matrix plain_env (JObj [(''skills'', JArr [JStr ''Python''])]) =
     Inr [Table ''Table Grid''
           [map label_cell [''Area'', ''Years'', ''Latest 3 Clients Used'', ''Level''],
            [plain_cell ''Python'', plain_cell [], plain_cell [], plain_cell []]]]
   \<and> map cell_text (map label_cell [''Area'', ''Years'', ''Latest 3 Clients Used'', ''Level''])
       \<noteq> [''Area'', ''Years'', ''Latest Clients Used'', ''Level'']"
  by code_simp

section \<open>The experience section and the name line\<close>






lemma create_body:
  assumes "create_formatted_docx ev parsed_data output_path logo_path = Inr (doc, saved)"
  obtains logo name front experience projects where
    "add_logo_top_right ev logo_path = Inr logo"
    and "render_name parsed_data = Inr name"
    and "render_experience ev parsed_data = Inr experience"
    and "body doc = logo @ name @ front @ experience @ projects"
proof -
  from assms obtain l n c s m ce ed ex pr where
    "add_logo_top_right ev logo_path = Inr l" and "render_name parsed_data = Inr n"
    and "render_experience ev parsed_data = Inr ex"
    and "body doc = l @ n @ c @ s @ [add_section_heading ''Skill Matrix''] @ m @ ce @ ed @ ex @ pr"
    by (fastforce simp: create_formatted_docx_def bind_def split: sum.splits)
  then show thesis
    using that[where front = "c @ s @ [add_section_heading ''Skill Matrix''] @ m @ ce @ ed"]
    by simp
qed




text \<open>
  Claim C10. For a record without the key \<^verbatim>\<open>name\<close> the name line is the centered text
  \<^verbatim>\<open>Name Not Found\<close>, and in every document that the renderer returns for it this line
  comes first, after the logo when there is one.
\<close>

theorem missing_name_renders_fallback:
  assumes "map_of kvs ''name'' = None"
  shows "render_name (JObj kvs) = Inr [name_line ''Name Not Found'']
       \<and> (create_formatted_docx ev (JObj kvs) output_path logo_path = Inr (doc, saved) \<longrightarrow>
            (\<exists>rest. body doc =
               (case file_at ev logo_path of Image \<Rightarrow> [Logo logo_path] | _ \<Rightarrow> [])
               @ name_line ''Name Not Found'' # rest))"
proof (intro conjI impI)
  have c: "capwords (strip ''Name Not Found'') = ''Name Not Found''" by code_simp
  show n: "render_name (JObj kvs) = Inr [name_line ''Name Not Found'']"
    using assms
    by (simp add: render_name_def dict_get_def bind_def c name_line_def apply_theme_body_font_def
        new_run_def)
  assume "create_formatted_docx ev (JObj kvs) output_path logo_path = Inr (doc, saved)"
  then obtain a b c x p where
    l: "add_logo_top_right ev logo_path = Inr a"
    and x: "render_name (JObj kvs) = Inr b"
    and b: "body doc = a @ b @ c @ x @ p"
    by (rule create_body)
  from l have "a = (case file_at ev logo_path of Image \<Rightarrow> [Logo logo_path] | _ \<Rightarrow> [])"
    by (auto simp: add_logo_top_right_def split: file_state.splits)
  moreover from x n have "b = [name_line ''Name Not Found'']" by simp
  ultimately show "\<exists>rest. body doc =
               (case file_at ev logo_path of Image \<Rightarrow> [Logo logo_path] | _ \<Rightarrow> [])
               @ name_line ''Name Not Found'' # rest"
    using b by simp
qed

theorem missing_name_renders_fallback_witness:
  "render_name (JObj []) = Inr [name_line ''Name Not Found'']
   \<and> create_formatted_docx plain_env (JObj []) ''out.docx'' ''logo.png'' =
     Inr (\<lparr>footer_runs = [apply_theme_body_font (new_run footer_text) (Some 10) False False None],
           body = [name_line ''Name Not Found'', add_section_heading ''Skill Matrix'']\<rparr>, True)"
proof -
  have c: "create_formatted_docx plain_env (JObj []) ''out.docx'' ''logo.png'' =
     Inr (\<lparr>footer_runs = [apply_theme_body_font (new_run footer_text) (Some 10) False False None],
           body = [name_line ''Name Not Found'', add_section_heading ''Skill Matrix'']\<rparr>, True)"
    by code_simp
  show ?thesis using missing_name_renders_fallback[of "[]"] c by simp
qed

end
